theory Spec2Isabelle
  imports Complex_Main "HOL-Library.Sublist"
begin

section \<open>JavaScript primitives used by the engine\<close>

text \<open>
  Scores, penalties, line numbers and metrics are integers in every path of the
  pipeline, so JavaScript numbers are modelled as \<open>int\<close>; where the source divides
  or multiplies by a fractional weight the value is an exact rational and
  \<open>Math.round\<close> is rounding half up, \<open>\<lfloor>x + 1/2\<rfloor>\<close>.
  On the integers of the pipeline the double-precision results are these exact ones.
  Strings are \<open>char list\<close>. \<open>toLowerCase\<close> maps the letters A to Z and leaves every
  other character; \<open>trim\<close> removes the ASCII white space (JavaScript also removes
  the Unicode spaces and line terminators).
\<close>

definition Math_round :: "rat \<Rightarrow> int" where
  "Math_round x = \<lfloor>x + 1 / 2\<rfloor>"

definition digit_char :: "nat \<Rightarrow> char" where
  "digit_char d = char_of (48 + d)"

fun show_nat :: "nat \<Rightarrow> string" where
  "show_nat n = (if n < 10 then [digit_char n] else show_nat (n div 10) @ [digit_char (n mod 10)])"

declare show_nat.simps [simp del]

definition show_int :: "int \<Rightarrow> string" where
  "show_int i = (if i < 0 then CHR ''-'' # show_nat (nat (- i)) else show_nat (nat i))"

definition quoted :: "string \<Rightarrow> string" where
  "quoted s = CHR 0x27 # s @ [CHR 0x27]"

text \<open>\<open>String.prototype.includes\<close>: the pattern occurs as a contiguous substring.\<close>

fun str_includes :: "string \<Rightarrow> string \<Rightarrow> bool" where
  "str_includes [] pat = (pat = [])"
| "str_includes (c # cs) pat = (prefix pat (c # cs) \<or> str_includes cs pat)"

definition lower_char :: "char \<Rightarrow> char" where
  "lower_char c = (let n = (of_char c :: nat) in if 65 \<le> n \<and> n \<le> 90 then char_of (n + 32) else c)"

definition toLowerCase :: "string \<Rightarrow> string" where
  "toLowerCase s = map lower_char s"

definition is_space :: "char \<Rightarrow> bool" where
  "is_space c = (c \<in> set [CHR 0x20, CHR 0x09, CHR 0x0A, CHR 0x0B, CHR 0x0C, CHR 0x0D])"

definition trim :: "string \<Rightarrow> string" where
  "trim s = rev (dropWhile is_space (rev (dropWhile is_space s)))"

text \<open>\<open>Array.prototype.join\<close>.\<close>

fun join :: "string \<Rightarrow> string list \<Rightarrow> string" where
  "join sep [] = []"
| "join sep [x] = x"
| "join sep (x # y # ys) = x @ sep @ join sep (y # ys)"

section \<open>Issues and category scores\<close>

datatype severity = CRITICAL | HIGH | MEDIUM

record issue =
  penalty :: int
  comment :: string
  severity :: "severity option"
  filename :: "string option"

record category_score =
  score :: int
  comments :: "string list"

definition mk_issue :: "int \<Rightarrow> string \<Rightarrow> severity option \<Rightarrow> issue" where
  "mk_issue p c s = \<lparr>penalty = p, comment = c, severity = s, filename = None\<rparr>"

definition aggregateCategory :: "int \<Rightarrow> issue list \<Rightarrow> category_score" where
  "aggregateCategory maxScore issues =
     (let totalPenalty = foldl (\<lambda>sum issue. sum + penalty issue) 0 issues;
          score = max 0 (maxScore - totalPenalty);
          comments = map comment issues
      in \<lparr>score = score, comments = comments\<rparr>)"

section \<open>The syntax tree as the traversal walks it\<close>

text \<open>
  The parser and the tree walker are libraries. A tree is modelled by the node
  types the visitors test for; \<open>loc\<close> is \<open>(loc.start.line, loc.end.line)\<close> when the
  node has a location; \<open>fname\<close> is the text \<open>getFunctionName\<close> returns for a function
  node. A path is a node with the types of its ancestors, nearest first. The walker
  visits every node once, parents before children, children left to right.
\<close>

datatype kind =
    IfStatement | ForStatement | ForInStatement | ForOfStatement
  | WhileStatement | DoWhileStatement | SwitchStatement
  | SwitchCase bool
  | ConditionalExpression
  | LogicalExpression string
  | TryStatement | CatchClause | BlockStatement
  | FunctionDeclaration | FunctionExpression | ArrowFunctionExpression
  | OtherNode

datatype node = Node (kind: kind) (loc: "(int \<times> int) option") (fname: string) (children: "node list")

type_synonym path = "kind list \<times> node"

fun paths :: "kind list \<Rightarrow> node \<Rightarrow> path list" where
  "paths anc (Node k l f cs) = (anc, Node k l f cs) # concat (map (\<lambda>c. paths (k # anc) c) cs)"

definition traverse :: "node \<Rightarrow> path list" where
  "traverse ast = paths [] ast"

text \<open>\<open>path.traverse\<close> walks the descendants of the path's node, not the node itself.\<close>

definition path_traverse :: "path \<Rightarrow> path list" where
  "path_traverse p = concat (map (\<lambda>c. paths (kind (snd p) # fst p) c) (children (snd p)))"

definition is_function :: "kind \<Rightarrow> bool" where
  "is_function k = (k = FunctionDeclaration \<or> k = FunctionExpression \<or> k = ArrowFunctionExpression)"

section \<open>Complexity analyzer\<close>

definition COMPLEXITY_MAX :: int where "COMPLEXITY_MAX = 25"

definition getComplexityPenalty :: "int \<Rightarrow> int" where
  "getComplexityPenalty complexity =
     (if complexity \<le> 5 then 0
      else if complexity \<le> 10 then 3
      else if complexity \<le> 15 then 6
      else if complexity \<le> 20 then 10
      else 15)"

text \<open>The visitors of \<open>calculateFunctionComplexity\<close>: which node types increment.\<close>

definition function_visitor :: "kind \<Rightarrow> bool" where
  "function_visitor k =
     (case k of
        IfStatement \<Rightarrow> True
      | ForStatement \<Rightarrow> True
      | ForInStatement \<Rightarrow> True
      | ForOfStatement \<Rightarrow> True
      | WhileStatement \<Rightarrow> True
      | DoWhileStatement \<Rightarrow> True
      | SwitchCase has_test \<Rightarrow> has_test
      | ConditionalExpression \<Rightarrow> True
      | LogicalExpression op \<Rightarrow> (op = ''&&'' \<or> op = ''||'' \<or> op = ''??'')
      | CatchClause \<Rightarrow> True
      | _ \<Rightarrow> False)"

definition calculateFunctionComplexity :: "path \<Rightarrow> int" where
  "calculateFunctionComplexity p =
     foldl (\<lambda>complexity q. if function_visitor (kind (snd q)) then complexity + 1 else complexity)
       1 (path_traverse p)"

definition isGlobalLevel :: "path \<Rightarrow> bool" where
  "isGlobalLevel p = (filter is_function (fst p) = [])"

text \<open>The visitors of \<open>calculateGlobalComplexity\<close>; there is none for catch clauses.\<close>

definition global_visitor :: "kind \<Rightarrow> bool" where
  "global_visitor k =
     (case k of
        IfStatement \<Rightarrow> True
      | ForStatement \<Rightarrow> True
      | ForInStatement \<Rightarrow> True
      | ForOfStatement \<Rightarrow> True
      | WhileStatement \<Rightarrow> True
      | DoWhileStatement \<Rightarrow> True
      | SwitchCase has_test \<Rightarrow> has_test
      | ConditionalExpression \<Rightarrow> True
      | LogicalExpression op \<Rightarrow> (op = ''&&'' \<or> op = ''||'' \<or> op = ''??'')
      | _ \<Rightarrow> False)"

definition calculateGlobalComplexity :: "node \<Rightarrow> int" where
  "calculateGlobalComplexity ast =
     foldl (\<lambda>complexity q. if isGlobalLevel q \<and> global_visitor (kind (snd q)) then complexity + 1 else complexity)
       1 (traverse ast)"

definition function_issue :: "string \<Rightarrow> int \<Rightarrow> int \<Rightarrow> issue" where
  "function_issue funcName complexity pen =
     mk_issue pen (''Function '' @ funcName @ '' has cyclomatic complexity of '' @ show_int complexity
                   @ ''. Consider simplifying control flow.'') None"

definition global_issue :: "int \<Rightarrow> int \<Rightarrow> issue" where
  "global_issue globalComplexity pen =
     mk_issue pen (''Global code has cyclomatic complexity of '' @ show_int globalComplexity
                   @ ''. Consider organizing into functions.'') None"

text \<open>
  The state of the walk is the pair \<open>(issues, functionComplexities.length)\<close>; only the
  length of \<open>functionComplexities\<close> is read afterwards.
\<close>

definition complexity_visit :: "issue list \<times> nat \<Rightarrow> path \<Rightarrow> issue list \<times> nat" where
  "complexity_visit st p =
     (if is_function (kind (snd p)) then
        (let complexity = calculateFunctionComplexity p;
             funcName = fname (snd p);
             pen = getComplexityPenalty complexity
         in (if pen > 0 then fst st @ [function_issue funcName complexity pen] else fst st, Suc (snd st)))
      else st)"

definition analyzeComplexity :: "node \<Rightarrow> issue list" where
  "analyzeComplexity ast =
     (let st = foldl complexity_visit ([], 0) (traverse ast)
      in if snd st = 0 then
           (let globalComplexity = calculateGlobalComplexity ast;
                pen = getComplexityPenalty globalComplexity
            in if pen > 0 then fst st @ [global_issue globalComplexity pen] else fst st)
         else fst st)"




section \<open>Readability, edge-case and security analyzers\<close>

text \<open>
  These analyzers test identifier names, literals and parent links that the tree
  above does not carry. What the walk of a tree yields for them is the sequence of
  \<open>issues.push\<close> calls it reaches, each with the values its message interpolates; the
  issue built at each call is as in the source. A line that may be absent
  (\<open>loc?.start.line\<close>) is an \<open>int option\<close>.
\<close>

definition show_line :: "int option \<Rightarrow> string" where
  "show_line l = (case l of None \<Rightarrow> ''undefined'' | Some n \<Rightarrow> show_int n)"

subsection \<open>Readability (rules/readability)\<close>

definition READABILITY_MAX :: int where "READABILITY_MAX = 25"

definition LONG_FUNCTION :: int where "LONG_FUNCTION = 3"
definition DEEP_NESTING :: int where "DEEP_NESTING = 3"
definition POOR_NAMING :: int where "POOR_NAMING = 2"
definition TOO_MANY_STATEMENTS :: int where "TOO_MANY_STATEMENTS = 2"

datatype readability_push =
    LongFunction string int
  | TooManyStatements string int
  | PoorNaming string
  | DeepNesting int int

primrec readability_issue :: "readability_push \<Rightarrow> issue" where
  "readability_issue (LongFunction funcName lines) =
     mk_issue LONG_FUNCTION
       (''Function '' @ funcName @ '' is '' @ show_int lines
        @ '' lines long (max: 40). Consider breaking it into smaller functions.'') None"
| "readability_issue (TooManyStatements funcName statementCount) =
     mk_issue TOO_MANY_STATEMENTS
       (''Function '' @ funcName @ '' has '' @ show_int statementCount
        @ '' top-level statements (max: 5). This may indicate too many responsibilities.'') None"
| "readability_issue (PoorNaming name) =
     mk_issue POOR_NAMING
       (''Variable '' @ quoted name @ '' has a non-descriptive name ('' @ show_nat (length name)
        @ '' chars). Use meaningful names.'') None"
| "readability_issue (DeepNesting line depth) =
     mk_issue DEEP_NESTING
       (''Deep nesting detected at line '' @ show_int line @ '' (depth: '' @ show_int depth
        @ '', max: 4). Consider extracting logic or using early returns.'') None"

subsection \<open>Edge cases, server copy (rules/edgeCases)\<close>

definition EDGE_CASES_MAX :: int where "EDGE_CASES_MAX = 25"

definition ASYNC_NO_TRY_CATCH :: int where "ASYNC_NO_TRY_CATCH = 4"
definition UNCHECKED_ARRAY_ACCESS :: int where "UNCHECKED_ARRAY_ACCESS = 3"
definition UNCHECKED_EXTERNAL_INPUT :: int where "UNCHECKED_EXTERNAL_INPUT = 3"

datatype edge_push =
    AsyncNoTryCatch string
  | UncheckedArrayAccess string "int option"
  | UncheckedExternalInput string "int option"

primrec edge_issue :: "edge_push \<Rightarrow> issue" where
  "edge_issue (AsyncNoTryCatch funcName) =
     mk_issue ASYNC_NO_TRY_CATCH
       (''Async function '' @ funcName
        @ '' contains await expressions without try/catch error handling.'') None"
| "edge_issue (UncheckedArrayAccess arrayName line) =
     mk_issue UNCHECKED_ARRAY_ACCESS
       (''Array '' @ quoted arrayName @ '' accessed at line '' @ show_line line
        @ '' without prior length or null check.'') None"
| "edge_issue (UncheckedExternalInput inputPath line) =
     mk_issue UNCHECKED_EXTERNAL_INPUT
       (''External input '' @ quoted inputPath @ '' used at line '' @ show_line line
        @ '' without apparent validation.'') None"

subsection \<open>Edge cases, browser copy (rules/edgeCases.browser.js)\<close>

text \<open>The line of an async function is \<open>loc?.start.line || 'unknown'\<close>.\<close>

datatype edge_browser_push =
    BAsyncNoTryCatch string "int option"
  | BUncheckedArrayAccess string int
  | BUncheckedExternalInput string string int

primrec edge_browser_issue :: "edge_browser_push \<Rightarrow> issue" where
  "edge_browser_issue (BAsyncNoTryCatch funcName line) =
     mk_issue ASYNC_NO_TRY_CATCH
       (''Async function '' @ funcName @ '' at line ''
        @ (case line of None \<Rightarrow> ''unknown'' | Some n \<Rightarrow> show_int n)
        @ '' uses await without try/catch. Unhandled rejections may occur.'') None"
| "edge_browser_issue (BUncheckedArrayAccess arrayName line) =
     mk_issue UNCHECKED_ARRAY_ACCESS
       (''Unchecked array access '' @ quoted (arrayName @ ''[...]'') @ '' at line '' @ show_int line
        @ ''. Verify array exists and has expected length.'') None"
| "edge_browser_issue (BUncheckedExternalInput objProp propName line) =
     mk_issue UNCHECKED_EXTERNAL_INPUT
       (''Unchecked external input '' @ quoted (''req.'' @ objProp @ ''.'' @ propName)
        @ '' at line '' @ show_int line @ ''. Validate before use.'') None"

subsection \<open>Security, server copy (rules/security)\<close>

definition SECURITY_MAX :: int where "SECURITY_MAX = 25"

definition EVAL_USAGE :: int where "EVAL_USAGE = 8"
definition CHILD_PROCESS_EXEC :: int where "CHILD_PROCESS_EXEC = 6"
definition HARDCODED_SECRET :: int where "HARDCODED_SECRET = 5"
definition UNSANITIZED_INPUT :: int where "UNSANITIZED_INPUT = 4"

text \<open>
  One constructor for each \<open>issues.push\<close> of the module, in source order: three in
  \<open>checkEvalUsage\<close>, two in \<open>checkChildProcessUsage\<close>, two in
  \<open>checkHardcodedSecrets\<close>, three in \<open>checkUnsanitizedInput\<close>.
\<close>

datatype security_push =
    DangerousCall string "int option"
  | NewFunctionInCall "int option"
  | NewFunction "int option"
  | ShellMemberCall string "int option"
  | ShellDirectCall string "int option"
  | SecretVariable string "int option"
  | SecretLiteral "int option"
  | TemplateInput "int option"
  | SqlConcat "int option"
  | HtmlConcat "int option"

definition new_function_comment :: "int option \<Rightarrow> string" where
  "new_function_comment line =
     ''Dangerous '' @ quoted ''new Function()'' @ '' usage detected at line '' @ show_line line
     @ ''. This is equivalent to eval() and can execute arbitrary code.''"

definition shell_comment :: "string \<Rightarrow> int option \<Rightarrow> string" where
  "shell_comment methodName line =
     ''Shell command execution via '' @ quoted (methodName @ ''()'') @ '' at line '' @ show_line line
     @ ''. Ensure input is sanitized to prevent command injection.''"

primrec security_issue :: "security_push \<Rightarrow> issue" where
  "security_issue (DangerousCall name line) =
     \<lparr>penalty = EVAL_USAGE,
      comment = ''Dangerous '' @ quoted (name @ ''()'') @ '' usage detected at line '' @ show_line line
        @ ''. This can execute arbitrary code and is a major security risk.'',
      severity = None, filename = None\<rparr>"
| "security_issue (NewFunctionInCall line) =
     \<lparr>penalty = EVAL_USAGE, comment = new_function_comment line, severity = None, filename = None\<rparr>"
| "security_issue (NewFunction line) =
     \<lparr>penalty = EVAL_USAGE, comment = new_function_comment line, severity = None, filename = None\<rparr>"
| "security_issue (ShellMemberCall methodName line) =
     \<lparr>penalty = CHILD_PROCESS_EXEC, comment = shell_comment methodName line,
      severity = None, filename = None\<rparr>"
| "security_issue (ShellDirectCall name line) =
     \<lparr>penalty = CHILD_PROCESS_EXEC, comment = shell_comment name line,
      severity = None, filename = None\<rparr>"
| "security_issue (SecretVariable varName line) =
     \<lparr>penalty = HARDCODED_SECRET,
      comment = ''Potential hardcoded secret in variable '' @ quoted varName @ '' at line ''
        @ show_line line @ ''. Use environment variables instead.'',
      severity = None, filename = None\<rparr>"
| "security_issue (SecretLiteral line) =
     \<lparr>penalty = HARDCODED_SECRET,
      comment = ''Potential hardcoded API key or token detected at line '' @ show_line line
        @ ''. Use environment variables instead.'',
      severity = None, filename = None\<rparr>"
| "security_issue (TemplateInput line) =
     \<lparr>penalty = UNSANITIZED_INPUT,
      comment = ''User input interpolated in template at line '' @ show_line line
        @ ''. Ensure proper sanitization to prevent injection attacks.'',
      severity = None, filename = None\<rparr>"
| "security_issue (SqlConcat line) =
     \<lparr>penalty = UNSANITIZED_INPUT,
      comment = ''Potential SQL injection: user input concatenated with SQL at line '' @ show_line line
        @ ''. Use parameterized queries.'',
      severity = None, filename = None\<rparr>"
| "security_issue (HtmlConcat line) =
     \<lparr>penalty = UNSANITIZED_INPUT,
      comment = ''Potential XSS: user input concatenated with HTML at line '' @ show_line line
        @ ''. Sanitize output.'',
      severity = None, filename = None\<rparr>"

subsection \<open>Security, browser copy (rules/security.browser.js)\<close>

text \<open>Every push of the browser copy is guarded by \<open>line &&\<close>, so its line is a number.\<close>

datatype security_browser_push =
    BDirectCall string int
  | BMemberCall string int
  | BNewFunction int
  | BChildProcess string int
  | BSecretVariable string int
  | BApiKey int
  | BTemplateInput int
  | BConcatInto string int

primrec security_browser_issue :: "security_browser_push \<Rightarrow> issue" where
  "security_browser_issue (BDirectCall name line) =
     \<lparr>penalty = EVAL_USAGE,
      comment = ''CRITICAL: '' @ name @ ''() usage detected at line '' @ show_int line
        @ ''. This allows arbitrary code execution and is a major security risk.'',
      severity = Some CRITICAL, filename = None\<rparr>"
| "security_browser_issue (BMemberCall name line) =
     \<lparr>penalty = EVAL_USAGE,
      comment = ''CRITICAL: '' @ name @ ''() usage detected at line '' @ show_int line
        @ ''. This allows arbitrary code execution.'',
      severity = Some CRITICAL, filename = None\<rparr>"
| "security_browser_issue (BNewFunction line) =
     \<lparr>penalty = EVAL_USAGE,
      comment = ''CRITICAL: new Function() usage detected at line '' @ show_int line
        @ ''. This is equivalent to eval() and allows arbitrary code execution.'',
      severity = Some CRITICAL, filename = None\<rparr>"
| "security_browser_issue (BChildProcess name line) =
     \<lparr>penalty = CHILD_PROCESS_EXEC,
      comment = ''CRITICAL: child_process.'' @ name @ ''() detected at line '' @ show_int line
        @ ''. Command injection risk if input is not sanitized.'',
      severity = Some CRITICAL, filename = None\<rparr>"
| "security_browser_issue (BSecretVariable varName line) =
     \<lparr>penalty = HARDCODED_SECRET,
      comment = ''Potential hardcoded secret in '' @ quoted varName @ '' at line '' @ show_int line
        @ ''. Use environment variables instead.'',
      severity = Some HIGH, filename = None\<rparr>"
| "security_browser_issue (BApiKey line) =
     \<lparr>penalty = HARDCODED_SECRET,
      comment = ''Potential hardcoded API key detected at line '' @ show_int line
        @ ''. String pattern matches common key formats.'',
      severity = Some HIGH, filename = None\<rparr>"
| "security_browser_issue (BTemplateInput line) =
     \<lparr>penalty = UNSANITIZED_INPUT,
      comment = ''Potential unsanitized user input in template literal at line '' @ show_int line
        @ ''. Validate and sanitize before use.'',
      severity = Some MEDIUM, filename = None\<rparr>"
| "security_browser_issue (BConcatInto contextName line) =
     \<lparr>penalty = UNSANITIZED_INPUT,
      comment = ''User input concatenated into '' @ contextName @ '' at line '' @ show_int line
        @ ''. XSS vulnerability risk.'',
      severity = Some HIGH, filename = None\<rparr>"

subsection \<open>The parser and the walker as the engine's environment\<close>

text \<open>
  \<open>babel_parse\<close> is \<open>parser.parse\<close> with the options of \<open>parseCode\<close>: \<open>Inl m\<close> when it
  throws an error whose message is \<open>m\<close>, \<open>Inr\<close> the tree otherwise. \<open>program\<close> is the
  tree the walker sees; the \<open>*_pushes\<close> fields give, for a tree, the pushes the
  walks of the named analyzer reach, in the order they are reached.
\<close>

record 'ast babel =
  babel_parse :: "string \<Rightarrow> string + 'ast"
  program :: "'ast \<Rightarrow> node"
  readability_pushes :: "'ast \<Rightarrow> readability_push list"
  edge_pushes :: "'ast \<Rightarrow> edge_push list"
  security_pushes :: "'ast \<Rightarrow> security_push list"
  edge_browser_pushes :: "'ast \<Rightarrow> edge_browser_push list"
  security_browser_pushes :: "'ast \<Rightarrow> security_browser_push list"

definition analyzeReadability :: "'ast babel \<Rightarrow> 'ast \<Rightarrow> issue list" where
  "analyzeReadability B ast = map readability_issue (readability_pushes B ast)"

definition analyzeEdgeCases :: "'ast babel \<Rightarrow> 'ast \<Rightarrow> issue list" where
  "analyzeEdgeCases B ast = map edge_issue (edge_pushes B ast)"

definition analyzeSecurity :: "'ast babel \<Rightarrow> 'ast \<Rightarrow> issue list" where
  "analyzeSecurity B ast = map security_issue (security_pushes B ast)"

definition analyzeEdgeCases_browser :: "'ast babel \<Rightarrow> 'ast \<Rightarrow> issue list" where
  "analyzeEdgeCases_browser B ast = map edge_browser_issue (edge_browser_pushes B ast)"

definition analyzeSecurity_browser :: "'ast babel \<Rightarrow> 'ast \<Rightarrow> issue list" where
  "analyzeSecurity_browser B ast = map security_browser_issue (security_browser_pushes B ast)"

text \<open>\<open>parseCode\<close> (parser/astParser.js and parser.browser.js are the same function).\<close>

record 'ast parse_result =
  ast :: "'ast option"
  error :: "string option"

definition parseCode :: "'ast babel \<Rightarrow> string \<Rightarrow> 'ast parse_result" where
  "parseCode B code =
     (case babel_parse B code of
        Inr a \<Rightarrow> \<lparr>ast = Some a, error = None\<rparr>
      | Inl message \<Rightarrow> \<lparr>ast = None, error = Some (''Syntax Error: '' @ message)\<rparr>)"

section \<open>Structural metrics (decision/astMetrics.js)\<close>

record metrics =
  maxNestingDepth :: int
  maxCyclomaticComplexity :: int
  maxFunctionLength :: int
  totalFunctions :: int

definition isNestingNode :: "kind \<Rightarrow> bool" where
  "isNestingNode k =
     (case k of
        IfStatement \<Rightarrow> True
      | ForStatement \<Rightarrow> True
      | ForInStatement \<Rightarrow> True
      | ForOfStatement \<Rightarrow> True
      | WhileStatement \<Rightarrow> True
      | DoWhileStatement \<Rightarrow> True
      | SwitchStatement \<Rightarrow> True
      | TryStatement \<Rightarrow> True
      | CatchClause \<Rightarrow> True
      | _ \<Rightarrow> False)"

definition calculateNestingDepth :: "path \<Rightarrow> int" where
  "calculateNestingDepth p = foldl (\<lambda>depth k. if isNestingNode k then depth + 1 else depth) 0 (fst p)"

definition metrics_visit :: "metrics \<Rightarrow> path \<Rightarrow> metrics" where
  "metrics_visit m p =
     (if kind (snd p) = BlockStatement then
        (let depth = calculateNestingDepth p
         in if depth > maxNestingDepth m then m\<lparr>maxNestingDepth := depth\<rparr> else m)
      else if is_function (kind (snd p)) then
        (let m1 = m\<lparr>totalFunctions := totalFunctions m + 1\<rparr>;
             m2 = (case loc (snd p) of
                     None \<Rightarrow> m1
                   | Some l \<Rightarrow>
                       (let lines = snd l - fst l + 1
                        in if lines > maxFunctionLength m1 then m1\<lparr>maxFunctionLength := lines\<rparr> else m1));
             complexity = calculateFunctionComplexity p
         in if complexity > maxCyclomaticComplexity m2
            then m2\<lparr>maxCyclomaticComplexity := complexity\<rparr> else m2)
      else m)"

definition extractMetrics :: "node \<Rightarrow> metrics" where
  "extractMetrics tree =
     (let m = foldl metrics_visit
                \<lparr>maxNestingDepth = 0, maxCyclomaticComplexity = 0, maxFunctionLength = 0,
                 totalFunctions = 0\<rparr> (traverse tree)
      in if totalFunctions m = 0 then m\<lparr>maxCyclomaticComplexity := calculateGlobalComplexity tree\<rparr>
         else m)"

section \<open>Review decision (decision/reviewDecision.js)\<close>

datatype decision = NOT_READY_FOR_REVIEW | NEEDS_REFACTOR | READY_FOR_HUMAN_REVIEW

definition REJECT_TOTAL :: int where "REJECT_TOTAL = 65"
definition REJECT_CATEGORY :: int where "REJECT_CATEGORY = 10"
definition REFACTOR_MAX :: int where "REFACTOR_MAX = 80"

definition CRITICAL_SECURITY_PATTERNS :: "string list" where
  "CRITICAL_SECURITY_PATTERNS = [''eval'', ''Function()'', ''child_process'', ''hardcoded secret'']"

record scores =
  readability :: category_score
  complexity :: category_score
  edgeCases :: category_score
  security :: category_score
  totalScore :: int

record decision_details =
  totalScore :: int
  categoryScores :: "(string \<times> int) list"
  failedCategories :: "string list"
  hasCriticalDeductions :: bool

record decision_result =
  decision :: decision
  decisionReason :: string
  decisionDetails :: decision_details

text \<open>The two nested loops return at the first pattern found in some comment.\<close>

definition checkCriticalDeductions :: "string list \<Rightarrow> bool" where
  "checkCriticalDeductions cs =
     (let lowerComments = map toLowerCase cs
      in list_ex (\<lambda>pattern. list_ex (\<lambda>c. str_includes c (toLowerCase pattern)) lowerComments)
           CRITICAL_SECURITY_PATTERNS)"

definition lookup_score :: "(string \<times> int) list \<Rightarrow> string \<Rightarrow> string" where
  "lookup_score categoryScores' cat =
     (case map_of categoryScores' cat of None \<Rightarrow> ''undefined'' | Some v \<Rightarrow> show_int v)"

definition buildRejectReason :: "int \<Rightarrow> string list \<Rightarrow> (string \<times> int) list \<Rightarrow> string" where
  "buildRejectReason totalScore' failed categoryScores' =
     (let reasons1 =
            (if totalScore' < REJECT_TOTAL
             then [''Total score '' @ show_int totalScore' @ '' is below minimum threshold (''
                   @ show_int REJECT_TOTAL @ '')'']
             else []);
          reasons2 =
            (if length failed > 0
             then (let failedDetails =
                         join '', '' (map (\<lambda>cat. cat @ '': '' @ lookup_score categoryScores' cat) failed)
                   in reasons1 @ [''Critical deficiencies in: '' @ failedDetails @ '' (minimum: ''
                                  @ show_int REJECT_CATEGORY @ '')''])
             else reasons1)
      in join ''. '' reasons2 @ ''. Code requires significant improvements before review.'')"

definition buildRefactorReason :: "int \<Rightarrow> string" where
  "buildRefactorReason totalScore' =
     (let gap = REFACTOR_MAX - totalScore'
      in ''Total score '' @ show_int totalScore' @ '' indicates code needs refactoring ('' @ show_int gap
         @ '' points below optimal). ''
         @ ''Address flagged issues to improve maintainability before human review.'')"

text \<open>
  \<open>Array.prototype.sort\<close> is stable, as is \<open>sort_key\<close>; \<open>categoryScores\<close> always has
  its four entries, so \<open>sorted[0]\<close> exists.
\<close>

definition buildReadyReason :: "int \<Rightarrow> (string \<times> int) list \<Rightarrow> string" where
  "buildReadyReason totalScore' categoryScores' =
     (let message = ''Code quality score '' @ show_int totalScore' @ ''/100 meets standards for human review.''
      in case sort_key snd categoryScores' of
           [] \<Rightarrow> message
         | lowest # _ \<Rightarrow>
             (if snd lowest < 20
              then message @ '' Reviewer should pay attention to '' @ fst lowest @ '' (''
                   @ show_int (snd lowest) @ ''/25).''
              else message))"

definition determineDecision :: "scores \<Rightarrow> decision_result" where
  "determineDecision sc =
     (let totalScore' = scores.totalScore sc;
          categoryScores' =
            [(''readability'', score (readability sc)),
             (''complexity'', score (complexity sc)),
             (''edgeCases'', score (edgeCases sc)),
             (''security'', score (security sc))];
          failed = map fst (filter (\<lambda>e. snd e < REJECT_CATEGORY) categoryScores');
          critical = checkCriticalDeductions (comments (security sc));
          details = \<lparr>decision_details.totalScore = totalScore', categoryScores = categoryScores',
                     failedCategories = failed, hasCriticalDeductions = critical\<rparr>
      in if totalScore' < REJECT_TOTAL \<or> length failed > 0 then
           \<lparr>decision = NOT_READY_FOR_REVIEW,
            decisionReason = buildRejectReason totalScore' failed categoryScores',
            decisionDetails = details\<rparr>
         else if totalScore' \<le> REFACTOR_MAX then
           \<lparr>decision = NEEDS_REFACTOR,
            decisionReason = buildRefactorReason totalScore',
            decisionDetails = details\<rparr>
         else if critical then
           \<lparr>decision = NEEDS_REFACTOR,
            decisionReason = ''Total score '' @ show_int totalScore'
              @ '' is good, but critical security issues detected. Address security concerns before human review.'',
            decisionDetails = details\<rparr>
         else
           \<lparr>decision = READY_FOR_HUMAN_REVIEW,
            decisionReason = buildReadyReason totalScore' categoryScores',
            decisionDetails = details\<rparr>)"

section \<open>Review Cost Index (decision/reviewCostIndex.js)\<close>

datatype factor = nestingDepth | cyclomaticComplexity | functionLength | securityDeductions

definition RCI_WEIGHTS :: "(factor \<times> rat) list" where
  "RCI_WEIGHTS =
     [(nestingDepth, 25 / 100), (cyclomaticComplexity, 30 / 100),
      (functionLength, 20 / 100), (securityDeductions, 25 / 100)]"

text \<open>\<open>NORMALIZATION\<close>: the pair is \<open>(min, max)\<close>.\<close>

definition NORMALIZATION :: "factor \<Rightarrow> int \<times> int" where
  "NORMALIZATION f =
     (case f of
        nestingDepth \<Rightarrow> (0, 8)
      | cyclomaticComplexity \<Rightarrow> (1, 25)
      | functionLength \<Rightarrow> (0, 100)
      | securityDeductions \<Rightarrow> (0, 25))"

record rci_level =
  level_max :: int
  label :: string
  meaning :: string

definition RCI_LEVELS_LOW :: rci_level where
  "RCI_LEVELS_LOW = \<lparr>level_max = 33, label = ''LOW'', meaning = ''Readable in one pass''\<rparr>"

definition RCI_LEVELS_MEDIUM :: rci_level where
  "RCI_LEVELS_MEDIUM =
     \<lparr>level_max = 66, label = ''MEDIUM'', meaning = ''Requires re-reading, moderate effort''\<rparr>"

definition RCI_LEVELS_HIGH :: rci_level where
  "RCI_LEVELS_HIGH =
     \<lparr>level_max = 100, label = ''HIGH'',
      meaning = ''Likely rejection or heavy commenting required''\<rparr>"

record rci_factor =
  rawValue :: int
  normalized :: int
  weight :: rat
  contribution :: int

record rci_result =
  level :: string
  score :: int
  factors :: "(factor \<times> rci_factor) list"
  humanExplanation :: string

definition normalizeMetric :: "int \<Rightarrow> int \<Rightarrow> int \<Rightarrow> int" where
  "normalizeMetric v lo hi =
     (if v \<le> lo then 0
      else if v \<ge> hi then 100
      else Math_round ((of_int (v - lo) / of_int (hi - lo)) * 100))"

definition getRawValue :: "factor \<Rightarrow> metrics \<Rightarrow> int \<Rightarrow> int" where
  "getRawValue f m deductions =
     (case f of
        nestingDepth \<Rightarrow> maxNestingDepth m
      | cyclomaticComplexity \<Rightarrow> maxCyclomaticComplexity m
      | functionLength \<Rightarrow> maxFunctionLength m
      | securityDeductions \<Rightarrow> deductions)"

definition determineLevel :: "int \<Rightarrow> rci_level" where
  "determineLevel sc =
     (if sc \<le> level_max RCI_LEVELS_LOW then RCI_LEVELS_LOW
      else if sc \<le> level_max RCI_LEVELS_MEDIUM then RCI_LEVELS_MEDIUM
      else RCI_LEVELS_HIGH)"

definition formatFactorName :: "factor \<Rightarrow> string" where
  "formatFactorName f =
     (case f of
        nestingDepth \<Rightarrow> ''deep nesting''
      | cyclomaticComplexity \<Rightarrow> ''high cyclomatic complexity''
      | functionLength \<Rightarrow> ''long functions''
      | securityDeductions \<Rightarrow> ''security concerns'')"

text \<open>
  The factors are sorted by contribution, largest first; the sort is stable and there
  are always four factors, so \<open>sortedFactors[0]\<close> exists. The label is one of the three
  of \<open>RCI_LEVELS\<close>.
\<close>

definition generateExplanation :: "rci_level \<Rightarrow> (factor \<times> rci_factor) list \<Rightarrow> int \<Rightarrow> string" where
  "generateExplanation lv fs totalScore' =
     (case sort_key (\<lambda>e. - contribution (snd e)) fs of
        [] \<Rightarrow> ''undefined''
      | topFactor # _ \<Rightarrow>
          (let topFactorName = formatFactorName (fst topFactor)
           in if label lv = ''LOW'' then
                ''This code is straightforward to review (RCI: '' @ show_int totalScore' @ ''). ''
                @ ''Clear structure and manageable complexity allow single-pass review.''
              else if label lv = ''MEDIUM'' then
                ''This code requires moderate review effort (RCI: '' @ show_int totalScore' @ ''). ''
                @ ''Main contributor: '' @ topFactorName @ ''. ''
                @ ''Reviewer may need to re-read sections for full understanding.''
              else if label lv = ''HIGH'' then
                ''This code demands significant review effort (RCI: '' @ show_int totalScore' @ ''). ''
                @ ''Primary concern: '' @ topFactorName @ '' ('' @ show_int (contribution (snd topFactor))
                @ '' points). '' @ ''Expect detailed commenting or potential rejection.''
              else ''undefined''))"

definition normalizedMetrics :: "metrics \<Rightarrow> int \<Rightarrow> factor \<Rightarrow> int" where
  "normalizedMetrics m deductions f =
     normalizeMetric (getRawValue f m deductions) (fst (NORMALIZATION f)) (snd (NORMALIZATION f))"

text \<open>One turn of the loop over \<open>Object.entries(RCI_WEIGHTS)\<close>; the state is \<open>(totalScore, factors)\<close>.\<close>

definition rci_step ::
  "metrics \<Rightarrow> int \<Rightarrow> int \<times> (factor \<times> rci_factor) list \<Rightarrow> factor \<times> rat
   \<Rightarrow> int \<times> (factor \<times> rci_factor) list" where
  "rci_step m deductions st fw =
     (let c = Math_round (of_int (normalizedMetrics m deductions (fst fw)) * snd fw)
      in (fst st + c,
          snd st @ [(fst fw, \<lparr>rawValue = getRawValue (fst fw) m deductions,
                              normalized = normalizedMetrics m deductions (fst fw),
                              weight = snd fw,
                              contribution = c\<rparr>)]))"

definition calculateRCI :: "metrics \<Rightarrow> int \<Rightarrow> rci_result" where
  "calculateRCI m securityScore =
     (let deductions = 25 - securityScore;
          st = foldl (rci_step m deductions) (0, []) RCI_WEIGHTS;
          totalScore' = min 100 (max 0 (fst st));
          lv = determineLevel totalScore'
      in \<lparr>level = label lv, score = totalScore', factors = snd st,
          humanExplanation = generateExplanation lv (snd st) totalScore'\<rparr>)"

section \<open>Server pipeline (scorer/aggregator.js and engine.js)\<close>

datatype js_error = Error string | TypeError string

text \<open>
  Modelled from the spec: the server module rules/complexity is not among the sources.
  The specification gives one penalty schedule for the complexity detector and the
  browser module states that it has the logic of the server one, so the server
  analyzer is the browser one.
\<close>

definition analyzeComplexity_server :: "node \<Rightarrow> issue list" where
  "analyzeComplexity_server tree = analyzeComplexity tree"

record server_result = scores +
  decision :: decision
  decisionReason :: string
  decisionDetails :: "decision_details option"
  reviewCost :: rci_result
  metrics :: "metrics option"
  error :: "string option"

text \<open>A string or \<open>null\<close> in a condition: \<open>null\<close> and the empty string are false.\<close>

definition truthy :: "string option \<Rightarrow> bool" where
  "truthy e = (case e of None \<Rightarrow> False | Some s \<Rightarrow> s \<noteq> [])"

definition syntax_comments :: "category_score" where
  "syntax_comments = \<lparr>category_score.score = 0, comments = [''Unable to analyze: code has syntax errors'']\<rparr>"

text \<open>
  The walker called on \<open>null\<close> throws; this is the \<open>TypeError\<close> branch, which needs a
  parse result with neither an error nor a tree.
\<close>

definition analyzeCode :: "'ast babel \<Rightarrow> string \<Rightarrow> js_error + server_result" where
  "analyzeCode B code =
     (let pr = parseCode B code
      in if truthy (parse_result.error pr) then
           Inr \<lparr>readability = syntax_comments, complexity = syntax_comments,
                edgeCases = syntax_comments, security = syntax_comments,
                scores.totalScore = 0,
                server_result.decision = NOT_READY_FOR_REVIEW,
                server_result.decisionReason = ''Code has syntax errors and cannot be analyzed.'',
                server_result.decisionDetails = None,
                reviewCost = \<lparr>level = ''HIGH'', score = 100, factors = [],
                              humanExplanation = ''Code cannot be parsed due to syntax errors.''\<rparr>,
                metrics = None,
                server_result.error = parse_result.error pr\<rparr>
         else
           (case ast pr of
              None \<Rightarrow> Inl (TypeError ''traverse: the tree is null'')
            | Some a \<Rightarrow>
                (let readabilityIssues = analyzeReadability B a;
                     complexityIssues = analyzeComplexity_server (program B a);
                     edgeCaseIssues = analyzeEdgeCases B a;
                     securityIssues = analyzeSecurity B a;
                     readability' = aggregateCategory READABILITY_MAX readabilityIssues;
                     complexity' = aggregateCategory COMPLEXITY_MAX complexityIssues;
                     edgeCases' = aggregateCategory EDGE_CASES_MAX edgeCaseIssues;
                     security' = aggregateCategory SECURITY_MAX securityIssues;
                     totalScore' = category_score.score readability' + category_score.score complexity'
                                   + category_score.score edgeCases' + category_score.score security';
                     scores' = \<lparr>readability = readability', complexity = complexity',
                                edgeCases = edgeCases', security = security',
                                scores.totalScore = totalScore'\<rparr>;
                     metrics' = extractMetrics (program B a);
                     d = determineDecision scores';
                     reviewCost' = calculateRCI metrics' (category_score.score security')
                 in Inr \<lparr>readability = readability', complexity = complexity',
                         edgeCases = edgeCases', security = security',
                         scores.totalScore = totalScore',
                         server_result.decision = decision_result.decision d,
                         server_result.decisionReason = decision_result.decisionReason d,
                         server_result.decisionDetails = Some (decision_result.decisionDetails d),
                         reviewCost = reviewCost',
                         metrics = Some metrics',
                         server_result.error = None\<rparr>)))"


text \<open>The argument of \<open>analyze\<close> is any JavaScript value: a string or something else.\<close>

datatype js_value = JString string | JOther

definition dquoted :: "string \<Rightarrow> string" where
  "dquoted s = CHR 0x22 # s @ [CHR 0x22]"

definition analyze :: "'ast babel \<Rightarrow> js_value \<Rightarrow> js_error + server_result" where
  "analyze B v =
     (case v of
        JOther \<Rightarrow> Inl (Error (''Invalid input: '' @ dquoted ''code'' @ '' must be a string''))
      | JString code \<Rightarrow>
          if length (trim code) = 0
          then Inl (Error (''Invalid input: '' @ dquoted ''code'' @ '' cannot be empty''))
          else analyzeCode B code)"

section \<open>Browser pipeline (analysis/aggregator.browser.js)\<close>

text \<open>
  Modelled from the spec: the browser module rules/readability.browser.js is not among
  the sources. The specification gives one readability detector with the penalties of
  the server module, so the browser analyzer is the server one.
\<close>

definition analyzeReadability_browser :: "'ast babel \<Rightarrow> 'ast \<Rightarrow> issue list" where
  "analyzeReadability_browser B a = analyzeReadability B a"

definition extractCriticalIssues :: "issue list \<Rightarrow> issue list" where
  "extractCriticalIssues securityIssues = filter (\<lambda>issue. severity issue = Some CRITICAL) securityIssues"

record browser_result = scores +
  filename :: string
  criticalIssues :: "issue list"
  error :: "string option"

text \<open>The second parameter has the default \<open>'unknown'\<close>; \<open>None\<close> is the omitted argument.\<close>

definition analyzeCode_browser :: "'ast babel \<Rightarrow> string \<Rightarrow> string option \<Rightarrow> js_error + browser_result" where
  "analyzeCode_browser B code fn =
     (let filename' = (case fn of None \<Rightarrow> ''unknown'' | Some f \<Rightarrow> f);
          pr = parseCode B code
      in if truthy (parse_result.error pr) then
           Inr \<lparr>readability = syntax_comments, complexity = syntax_comments,
                edgeCases = syntax_comments, security = syntax_comments,
                scores.totalScore = 0,
                browser_result.filename = filename',
                browser_result.criticalIssues = [],
                browser_result.error = parse_result.error pr\<rparr>
         else
           (case ast pr of
              None \<Rightarrow> Inl (TypeError ''traverse: the tree is null'')
            | Some a \<Rightarrow>
                (let readabilityIssues = analyzeReadability_browser B a;
                     complexityIssues = analyzeComplexity (program B a);
                     edgeCaseIssues = analyzeEdgeCases_browser B a;
                     securityIssues = analyzeSecurity_browser B a;
                     criticalIssues' = extractCriticalIssues securityIssues;
                     readability' = aggregateCategory READABILITY_MAX readabilityIssues;
                     complexity' = aggregateCategory COMPLEXITY_MAX complexityIssues;
                     edgeCases' = aggregateCategory EDGE_CASES_MAX edgeCaseIssues;
                     security' = aggregateCategory SECURITY_MAX securityIssues;
                     totalScore' = category_score.score readability' + category_score.score complexity'
                                   + category_score.score edgeCases' + category_score.score security'
                 in Inr \<lparr>readability = readability', complexity = complexity',
                         edgeCases = edgeCases', security = security',
                         scores.totalScore = totalScore',
                         browser_result.filename = filename',
                         browser_result.criticalIssues = criticalIssues',
                         browser_result.error = None\<rparr>)))"

record source_file =
  filename :: string
  content :: string

record files_result =
  files :: "browser_result list"
  aggregated :: scores
  criticalIssues :: "issue list"

text \<open>\<open>files.map\<close> with a callback that may throw: the first throw ends the call.\<close>

fun map_throwing :: "('a \<Rightarrow> js_error + 'b) \<Rightarrow> 'a list \<Rightarrow> js_error + 'b list" where
  "map_throwing f [] = Inr []"
| "map_throwing f (x # xs) =
     (case f x of
        Inl e \<Rightarrow> Inl e
      | Inr y \<Rightarrow> (case map_throwing f xs of Inl e \<Rightarrow> Inl e | Inr ys \<Rightarrow> Inr (y # ys)))"

definition add_category :: "string \<Rightarrow> category_score \<Rightarrow> category_score \<Rightarrow> category_score" where
  "add_category file_name acc r =
     \<lparr>category_score.score = category_score.score acc + category_score.score r,
      comments = comments acc @ map (\<lambda>c. ''['' @ file_name @ ''] '' @ c) (comments r)\<rparr>"

text \<open>One turn of \<open>for (const result of results)\<close>; the state is \<open>(aggregated, allCriticalIssues)\<close>.\<close>

definition files_step :: "scores \<times> issue list \<Rightarrow> browser_result \<Rightarrow> scores \<times> issue list" where
  "files_step st r =
     (let file_name = browser_result.filename r; agg = fst st
      in (agg\<lparr>readability := add_category file_name (readability agg) (readability r),
              complexity := add_category file_name (complexity agg) (complexity r),
              edgeCases := add_category file_name (edgeCases agg) (edgeCases r),
              security := add_category file_name (security agg) (security r)\<rparr>,
          snd st @ map (\<lambda>issue. issue\<lparr>issue.filename := Some file_name\<rparr>) (browser_result.criticalIssues r)))"

definition average :: "nat \<Rightarrow> category_score \<Rightarrow> category_score" where
  "average totalFiles c =
     c\<lparr>category_score.score := Math_round (of_int (category_score.score c) / of_nat totalFiles)\<rparr>"

definition empty_category :: category_score where
  "empty_category = \<lparr>category_score.score = 0, comments = []\<rparr>"

definition analyzeFiles :: "'ast babel \<Rightarrow> source_file list \<Rightarrow> js_error + files_result" where
  "analyzeFiles B fs =
     (case map_throwing (\<lambda>file. analyzeCode_browser B (content file) (Some (source_file.filename file))) fs of
        Inl e \<Rightarrow> Inl e
      | Inr results \<Rightarrow>
          (let totalFiles = length results;
               st = foldl files_step
                      (\<lparr>readability = empty_category, complexity = empty_category,
                        edgeCases = empty_category, security = empty_category,
                        scores.totalScore = 0\<rparr>, []) results;
               agg = fst st;
               agg' =
                 (if totalFiles > 0 then
                    (let r = average totalFiles (readability agg);
                         c = average totalFiles (complexity agg);
                         e = average totalFiles (edgeCases agg);
                         s = average totalFiles (security agg)
                     in \<lparr>readability = r, complexity = c, edgeCases = e, security = s,
                         scores.totalScore = category_score.score r + category_score.score c
                                             + category_score.score e + category_score.score s\<rparr>)
                  else agg)
           in Inr \<lparr>files = results, aggregated = agg', files_result.criticalIssues = snd st\<rparr>))"

section \<open>Verdict engine (analysis/verdictEngine.js)\<close>

datatype verdict = APPROVE | APPROVE_WITH_NITS | REQUEST_CHANGES | BLOCK_MERGE




text \<open>
  The argument object: \<open>criticalIssues\<close> has the default \<open>[]\<close> and \<open>aggregated\<close> may be
  absent.
\<close>

record analysis_result =
  totalScore :: int
  criticalIssues :: "issue list option"
  aggregated :: "scores option"

record verdict_details =
  scoreBasedVerdict :: verdict
  wasOverridden :: bool
  criticalIssueCount :: "nat option"
  criticalIssues :: "(string \<times> string) list option"

record verdict_result =
  verdict :: verdict
  explanation :: string
  overrideReason :: "string option"
  details :: verdict_details






text \<open>\<open>[...new Set(xs)]\<close>: the distinct elements in the order of their first occurrence.\<close>

fun set_spread :: "'a list \<Rightarrow> 'a list" where
  "set_spread [] = []"
| "set_spread (x # xs) = x # filter (\<lambda>y. y \<noteq> x) (set_spread xs)"



section \<open>The properties in the words of the specification\<close>

subsection \<open>Complexity\<close>


subsection \<open>Review Cost Index\<close>

text \<open>
  The computation in the words of the specification: a raw value is normalized
  linearly on its band and clamped at the ends; the contribution stated there is the
  weighted normalized value, rounded.
\<close>

definition linear_normalize :: "int \<Rightarrow> int \<Rightarrow> int \<Rightarrow> rat" where
  "linear_normalize v lo hi =
     (if v \<le> lo then 0 else if hi \<le> v then 100 else of_int (v - lo) / of_int (hi - lo) * 100)"

definition raw_on_band :: "metrics \<Rightarrow> int \<Rightarrow> factor \<Rightarrow> rat" where
  "raw_on_band m securityScore f =
     linear_normalize (getRawValue f m (25 - securityScore)) (fst (NORMALIZATION f)) (snd (NORMALIZATION f))"

definition stated_contribution :: "metrics \<Rightarrow> int \<Rightarrow> factor \<times> rat \<Rightarrow> int" where
  "stated_contribution m securityScore fw = Math_round (raw_on_band m securityScore (fst fw) * snd fw)"

definition stated_score :: "metrics \<Rightarrow> int \<Rightarrow> int" where
  "stated_score m securityScore =
     min 100 (max 0 (sum_list (map (stated_contribution m securityScore) RCI_WEIGHTS)))"

text \<open>The contribution with the normalized value rounded to an integer first.\<close>

definition rounded_contribution :: "metrics \<Rightarrow> int \<Rightarrow> factor \<times> rat \<Rightarrow> int" where
  "rounded_contribution m securityScore fw =
     Math_round (of_int (Math_round (raw_on_band m securityScore (fst fw))) * snd fw)"

subsection \<open>Review decision\<close>

text \<open>The conditions of the decision rule in the words of the specification.\<close>

definition rejects :: "scores \<Rightarrow> bool" where
  "rejects sc =
     (scores.totalScore sc < 65
      \<or> category_score.score (readability sc) < 10 \<or> category_score.score (complexity sc) < 10
      \<or> category_score.score (edgeCases sc) < 10 \<or> category_score.score (security sc) < 10)"

definition critical_comment :: "string list \<Rightarrow> bool" where
  "critical_comment cs =
     (\<exists>c \<in> set cs. \<exists>p \<in> {''eval'', ''Function()'', ''child_process'', ''hardcoded secret''}.
        sublist (toLowerCase p) (toLowerCase c))"

definition category_entries :: "scores \<Rightarrow> (string \<times> int) list" where
  "category_entries sc =
     [(''readability'', category_score.score (readability sc)),
      (''complexity'', category_score.score (complexity sc)),
      (''edgeCases'', category_score.score (edgeCases sc)),
      (''security'', category_score.score (security sc))]"

subsection \<open>Batch analysis\<close>



section \<open>Example trees, environments and inputs\<close>

text \<open>
  An environment whose parser accepts the one source \<open>eval(x)\<close>, for which the
  security analyzers report a direct call of \<open>eval\<close> on line 1, and rejects every
  other source.
\<close>

definition demo_tree :: node where
  "demo_tree = Node OtherNode (Some (1, 1)) [] []"

definition B_demo :: "unit babel" where
  "B_demo =
     \<lparr>babel_parse = (\<lambda>code. if code = ''eval(x)'' then Inr () else Inl ''Unexpected token (1:1)''),
      program = (\<lambda>_. demo_tree),
      readability_pushes = (\<lambda>_. []),
      edge_pushes = (\<lambda>_. []),
      security_pushes = (\<lambda>_. [DangerousCall ''eval'' (Some 1)]),
      edge_browser_pushes = (\<lambda>_. []),
      security_browser_pushes = (\<lambda>_. [BDirectCall ''eval'' 1])\<rparr>"



text \<open>A function of nine lines with three nested \<open>if\<close> statements.\<close>

definition nested_if_tree :: node where
  "nested_if_tree =
     Node OtherNode (Some (1, 9)) []
       [Node FunctionDeclaration (Some (1, 9)) (quoted ''f'')
          [Node BlockStatement (Some (1, 9)) []
             [Node IfStatement (Some (2, 8)) []
                [Node BlockStatement (Some (2, 8)) []
                   [Node IfStatement (Some (3, 7)) []
                      [Node BlockStatement (Some (3, 7)) []
                         [Node IfStatement (Some (4, 6)) []
                            [Node BlockStatement (Some (4, 6)) [] []]]]]]]]]"


text \<open>A scores object from four category scores, the security comments and a total.\<close>

definition mk_scores :: "int \<Rightarrow> int \<Rightarrow> int \<Rightarrow> int \<Rightarrow> string list \<Rightarrow> int \<Rightarrow> scores" where
  "mk_scores r c e s security_comments t =
     \<lparr>readability = \<lparr>category_score.score = r, comments = []\<rparr>,
      complexity = \<lparr>category_score.score = c, comments = []\<rparr>,
      edgeCases = \<lparr>category_score.score = e, comments = []\<rparr>,
      security = \<lparr>category_score.score = s, comments = security_comments\<rparr>,
      scores.totalScore = t\<rparr>"


section \<open>Properties\<close>

subsection \<open>Aggregation, complexity penalties and score bounds\<close>













lemma penalty_function_issue [simp]: "penalty (function_issue f c p) = p"
  by (simp add: function_issue_def mk_issue_def)

lemma penalty_global_issue [simp]: "penalty (global_issue c p) = p"
  by (simp add: global_issue_def mk_issue_def)













subsection \<open>Parse failure and input validation\<close>

lemma parseCode_Inl:
  "babel_parse B code = Inl m \<Longrightarrow>
     parseCode B code = \<lparr>ast = None, error = Some (''Syntax Error: '' @ m)\<rparr>"
  by (simp add: parseCode_def)


lemma analyzeCode_syntax_error:
  assumes "babel_parse B code = Inl m"
  shows "analyzeCode B code =
     Inr \<lparr>readability = syntax_comments, complexity = syntax_comments,
          edgeCases = syntax_comments, security = syntax_comments,
          scores.totalScore = 0,
          server_result.decision = NOT_READY_FOR_REVIEW,
          server_result.decisionReason = ''Code has syntax errors and cannot be analyzed.'',
          server_result.decisionDetails = None,
          reviewCost = \<lparr>level = ''HIGH'', score = 100, factors = [],
                        humanExplanation = ''Code cannot be parsed due to syntax errors.''\<rparr>,
          metrics = None,
          server_result.error = Some (''Syntax Error: '' @ m)\<rparr>"
  by (simp add: analyzeCode_def parseCode_Inl [OF assms] truthy_def)

text \<open>
  Claim C4, as amended. When the parser fails with message \<open>m\<close>, \<open>analyzeCode\<close> (and
  \<open>analyze\<close>, for a source that is not blank) returns a result in which every category
  has score 0 and the single fixed comment \<open>Unable to analyze: code has syntax errors\<close>,
  the total score is 0, and the top-level error field is the non-empty string
  \<open>Syntax Error: m\<close>: the parser's message is in the error field only.
\<close>

theorem syntax_error_zero_result:
  "babel_parse B code = Inl m \<longrightarrow>
     (\<exists>r. analyzeCode B code = Inr r
        \<and> (trim code \<noteq> [] \<longrightarrow> analyze B (JString code) = Inr r)
        \<and> readability r = \<lparr>category_score.score = 0, comments = [''Unable to analyze: code has syntax errors'']\<rparr>
        \<and> complexity r = \<lparr>category_score.score = 0, comments = [''Unable to analyze: code has syntax errors'']\<rparr>
        \<and> edgeCases r = \<lparr>category_score.score = 0, comments = [''Unable to analyze: code has syntax errors'']\<rparr>
        \<and> security r = \<lparr>category_score.score = 0, comments = [''Unable to analyze: code has syntax errors'']\<rparr>
        \<and> scores.totalScore r = 0
        \<and> server_result.error r = Some (''Syntax Error: '' @ m)
        \<and> ''Syntax Error: '' @ m \<noteq> [])"
proof
  assume f: "babel_parse B code = Inl m"
  show "\<exists>r. analyzeCode B code = Inr r
        \<and> (trim code \<noteq> [] \<longrightarrow> analyze B (JString code) = Inr r)
        \<and> readability r = \<lparr>category_score.score = 0, comments = [''Unable to analyze: code has syntax errors'']\<rparr>
        \<and> complexity r = \<lparr>category_score.score = 0, comments = [''Unable to analyze: code has syntax errors'']\<rparr>
        \<and> edgeCases r = \<lparr>category_score.score = 0, comments = [''Unable to analyze: code has syntax errors'']\<rparr>
        \<and> security r = \<lparr>category_score.score = 0, comments = [''Unable to analyze: code has syntax errors'']\<rparr>
        \<and> scores.totalScore r = 0
        \<and> server_result.error r = Some (''Syntax Error: '' @ m)
        \<and> ''Syntax Error: '' @ m \<noteq> []"
    by (simp add: analyzeCode_syntax_error [OF f] analyze_def syntax_comments_def)
qed

theorem syntax_error_zero_result_witness:
  "babel_parse B_demo ''function f() {'' = Inl ''Unexpected token (1:1)''
   \<and> (\<exists>r. analyzeCode B_demo ''function f() {'' = Inr r
        \<and> scores.totalScore r = 0
        \<and> server_result.error r = Some ''Syntax Error: Unexpected token (1:1)'')"
proof -
  have f: "babel_parse B_demo ''function f() {'' = Inl ''Unexpected token (1:1)''"
    by (simp add: B_demo_def)
  from syntax_error_zero_result [of B_demo "''function f() {''" "''Unexpected token (1:1)''"] f
  show ?thesis by auto
qed

text \<open>
  Claim C4 as stated fails: on a source the parser rejects with
  \<open>Unexpected token (1:1)\<close>, the comment list of a category is the fixed comment and
  holds neither the error field nor the parser's message.
\<close>

theorem syntax_error_comments_counterexample:
  "server_result.error (projr (analyzeCode B_demo ''function f() {''))
     = Some ''Syntax Error: Unexpected token (1:1)''
   \<and> comments (readability (projr (analyzeCode B_demo ''function f() {'')))
     = [''Unable to analyze: code has syntax errors'']
   \<and> ''Syntax Error: Unexpected token (1:1)''
       \<notin> set (comments (readability (projr (analyzeCode B_demo ''function f() {''))))
   \<and> \<not> str_includes ''Unable to analyze: code has syntax errors'' ''Unexpected token (1:1)''"
  by code_simp

text \<open>
  Claim C7. \<open>analyze\<close> throws an error whose message starts with \<open>Invalid input\<close> for
  an argument that is not a string and for a string that is empty (or blank); the
  outcome does not depend on the parser, and it is never an analysis result.
\<close>

theorem analyze_rejects_invalid_input:
  "analyze B JOther = Inl (Error (''Invalid input: '' @ dquoted ''code'' @ '' must be a string''))
   \<and> (trim code = [] \<longrightarrow>
        analyze B (JString code) = Inl (Error (''Invalid input: '' @ dquoted ''code'' @ '' cannot be empty'')))
   \<and> analyze B (JString []) = Inl (Error (''Invalid input: '' @ dquoted ''code'' @ '' cannot be empty''))
   \<and> prefix ''Invalid input'' (''Invalid input: '' @ dquoted ''code'' @ '' must be a string'')
   \<and> prefix ''Invalid input'' (''Invalid input: '' @ dquoted ''code'' @ '' cannot be empty'')
   \<and> ((v = JOther \<or> v = JString []) \<longrightarrow> (\<forall>r. analyze B v \<noteq> Inr r) \<and> analyze B' v = analyze B v)"
  by (auto simp: analyze_def trim_def)

theorem analyze_rejects_invalid_input_witness:
  "trim ''  '' = []
   \<and> analyze B_demo (JString ''  '') = Inl (Error (''Invalid input: '' @ dquoted ''code'' @ '' cannot be empty''))
   \<and> analyze B_demo (JString []) \<noteq> analyzeCode B_demo []"
proof -
  have t: "trim ''  '' = []" by (simp add: trim_def is_space_def)
  have f: "babel_parse B_demo [] = Inl ''Unexpected token (1:1)''" by (simp add: B_demo_def)
  have d: "analyzeCode B_demo [] \<noteq> Inl (Error (''Invalid input: '' @ dquoted ''code'' @ '' cannot be empty''))"
    by (simp add: analyzeCode_syntax_error [OF f])
  from analyze_rejects_invalid_input [of B_demo "''  ''" "JString []" B_demo] t d
  show ?thesis by auto
qed

subsection \<open>Severity tags\<close>






subsection \<open>The empty batch\<close>

text \<open>
  Claim C10. For the empty file list \<open>analyzeFiles\<close> returns no files, no critical
  issues, and an aggregate whose four category scores and total score are 0.
\<close>

theorem analyzeFiles_empty:
  "analyzeFiles B [] =
     Inr \<lparr>files = [],
          aggregated = \<lparr>readability = \<lparr>category_score.score = 0, comments = []\<rparr>,
                        complexity = \<lparr>category_score.score = 0, comments = []\<rparr>,
                        edgeCases = \<lparr>category_score.score = 0, comments = []\<rparr>,
                        security = \<lparr>category_score.score = 0, comments = []\<rparr>,
                        scores.totalScore = 0\<rparr>,
          files_result.criticalIssues = []\<rparr>"
  by (simp add: analyzeFiles_def empty_category_def)

subsection \<open>Review Cost Index\<close>

lemma Math_round_0 [simp]: "Math_round 0 = 0"
  by (simp add: Math_round_def floor_eq_iff)

lemma Math_round_of_int [simp]: "Math_round (of_int n) = n"
  by (simp add: Math_round_def floor_eq_iff)

lemma Math_round_100 [simp]: "Math_round 100 = 100"
  using Math_round_of_int [of 100] by simp

lemma normalizeMetric_linear:
  "normalizeMetric v lo hi = Math_round (linear_normalize v lo hi)"
  by (simp add: normalizeMetric_def linear_normalize_def)

lemma normalizedMetrics_band:
  "normalizedMetrics m (25 - s) f = Math_round (raw_on_band m s f)"
  by (simp add: normalizedMetrics_def raw_on_band_def normalizeMetric_linear)

lemma rci_fold:
  "foldl (rci_step m d) (0, []) RCI_WEIGHTS =
     (sum_list (map (\<lambda>fw. Math_round (of_int (normalizedMetrics m d (fst fw)) * snd fw)) RCI_WEIGHTS),
      map (\<lambda>fw. (fst fw, \<lparr>rawValue = getRawValue (fst fw) m d,
                           normalized = normalizedMetrics m d (fst fw),
                           weight = snd fw,
                           contribution = Math_round (of_int (normalizedMetrics m d (fst fw)) * snd fw)\<rparr>))
        RCI_WEIGHTS)"
  by (simp add: RCI_WEIGHTS_def rci_step_def Let_def)

text \<open>
  Claim C5, as amended. \<open>calculateRCI\<close> normalizes each raw factor (nesting depth on
  [0,8], cyclomatic complexity on [1,25], function length on [0,100], security
  deductions \<open>25 - securityScore\<close> on [0,25]) linearly to [0,100] with clamping at the
  band ends and rounds the normalized value to an integer; the contribution is that
  integer times the weight (0.25, 0.30, 0.20, 0.25, summing to 1), rounded. The score
  is the sum of the contributions clamped to [0,100]; the level is LOW up to 33,
  MEDIUM up to 66, HIGH above.
\<close>

theorem rci_rounds_normalized_values:
  "factors (calculateRCI m s) =
     map (\<lambda>fw. (fst fw, \<lparr>rawValue = getRawValue (fst fw) m (25 - s),
                          normalized = Math_round (raw_on_band m s (fst fw)),
                          weight = snd fw,
                          contribution = rounded_contribution m s fw\<rparr>)) RCI_WEIGHTS
   \<and> rci_result.score (calculateRCI m s) =
       min 100 (max 0 (sum_list (map (rounded_contribution m s) RCI_WEIGHTS)))
   \<and> 0 \<le> rci_result.score (calculateRCI m s) \<and> rci_result.score (calculateRCI m s) \<le> 100
   \<and> level (calculateRCI m s) =
       (if rci_result.score (calculateRCI m s) \<le> 33 then ''LOW''
        else if rci_result.score (calculateRCI m s) \<le> 66 then ''MEDIUM'' else ''HIGH'')
   \<and> RCI_WEIGHTS =
       [(nestingDepth, 25 / 100), (cyclomaticComplexity, 30 / 100),
        (functionLength, 20 / 100), (securityDeductions, 25 / 100)]
   \<and> sum_list (map snd RCI_WEIGHTS) = 1
   \<and> map NORMALIZATION [nestingDepth, cyclomaticComplexity, functionLength, securityDeductions]
       = [(0, 8), (1, 25), (0, 100), (0, 25)]
   \<and> map (\<lambda>f. getRawValue f m (25 - s)) [nestingDepth, cyclomaticComplexity, functionLength, securityDeductions]
       = [maxNestingDepth m, maxCyclomaticComplexity m, maxFunctionLength m, 25 - s]"
proof -
  have f: "factors (calculateRCI m s) =
     map (\<lambda>fw. (fst fw, \<lparr>rawValue = getRawValue (fst fw) m (25 - s),
                          normalized = Math_round (raw_on_band m s (fst fw)),
                          weight = snd fw,
                          contribution = rounded_contribution m s fw\<rparr>)) RCI_WEIGHTS"
    by (simp add: calculateRCI_def Let_def rci_fold normalizedMetrics_band rounded_contribution_def)
  have sc: "rci_result.score (calculateRCI m s) =
       min 100 (max 0 (sum_list (map (rounded_contribution m s) RCI_WEIGHTS)))"
    unfolding rounded_contribution_def
    by (simp add: calculateRCI_def Let_def rci_fold normalizedMetrics_band)
  have b: "0 \<le> rci_result.score (calculateRCI m s) \<and> rci_result.score (calculateRCI m s) \<le> 100"
    by (simp add: sc)
  have l: "level (calculateRCI m s) =
       (if rci_result.score (calculateRCI m s) \<le> 33 then ''LOW''
        else if rci_result.score (calculateRCI m s) \<le> 66 then ''MEDIUM'' else ''HIGH'')"
    by (auto simp: calculateRCI_def Let_def determineLevel_def RCI_LEVELS_LOW_def
          RCI_LEVELS_MEDIUM_def RCI_LEVELS_HIGH_def)
  have w: "RCI_WEIGHTS =
       [(nestingDepth, 25 / 100), (cyclomaticComplexity, 30 / 100),
        (functionLength, 20 / 100), (securityDeductions, 25 / 100)]
     \<and> sum_list (map snd RCI_WEIGHTS) = 1"
    by (simp add: RCI_WEIGHTS_def)
  have n: "map NORMALIZATION [nestingDepth, cyclomaticComplexity, functionLength, securityDeductions]
       = [(0, 8), (1, 25), (0, 100), (0, 25)]"
    by (simp add: NORMALIZATION_def)
  have r: "map (\<lambda>f. getRawValue f m (25 - s)) [nestingDepth, cyclomaticComplexity, functionLength, securityDeductions]
       = [maxNestingDepth m, maxCyclomaticComplexity m, maxFunctionLength m, 25 - s]"
    by (simp add: getRawValue_def)
  from f sc b l w n r show ?thesis by blast
qed

theorem rci_rounds_normalized_values_witness:
  "rci_result.score (calculateRCI (extractMetrics nested_if_tree) 25)
     = min 100 (max 0 (sum_list (map (rounded_contribution (extractMetrics nested_if_tree) 25) RCI_WEIGHTS)))
   \<and> rci_result.score (calculateRCI (extractMetrics nested_if_tree) 25) \<le> 100
   \<and> level (calculateRCI (extractMetrics nested_if_tree) 25) = ''LOW''"
proof -
  have "rci_result.score (calculateRCI (extractMetrics nested_if_tree) 25) = 16"
    by code_simp
  with rci_rounds_normalized_values [of "extractMetrics nested_if_tree" 25]
  show ?thesis by simp
qed

text \<open>
  Claim C5 as stated fails: for a function of nine lines with three nested \<open>if\<close>
  statements and a full security score, weighting the unrounded normalized values gives
  the contributions 9, 4, 2, 0 and the score 15; the code gives 10, 4, 2, 0 and 16.
\<close>

theorem rci_single_rounding_counterexample:
  "extractMetrics nested_if_tree =
     \<lparr>maxNestingDepth = 3, maxCyclomaticComplexity = 4, maxFunctionLength = 9, totalFunctions = 1\<rparr>
   \<and> map (\<lambda>e. contribution (snd e)) (factors (calculateRCI (extractMetrics nested_if_tree) 25)) = [10, 4, 2, 0]
   \<and> map (stated_contribution (extractMetrics nested_if_tree) 25) RCI_WEIGHTS = [9, 4, 2, 0]
   \<and> rci_result.score (calculateRCI (extractMetrics nested_if_tree) 25) = 16
   \<and> stated_score (extractMetrics nested_if_tree) 25 = 15"
  by code_simp

subsection \<open>Verdict\<close>

lemma set_set_spread [simp]: "set (set_spread xs) = set xs"
  by (induction xs) auto

lemma distinct_set_spread [simp]: "distinct (set_spread xs)"
  by (induction xs) auto







subsection \<open>Review decision\<close>

lemma str_includes_sublist: "str_includes s pat \<longleftrightarrow> sublist pat s"
  by (induction s) (auto simp: sublist_Cons_right)

lemma sublist_in_right: "sublist x b \<Longrightarrow> sublist x (a @ b)"
  unfolding sublist_def by (metis append.assoc)

lemma sublist_in_left: "sublist x a \<Longrightarrow> sublist x (a @ b)"
  unfolding sublist_def by (metis append.assoc)

lemma sublist_join: "x \<in> set xs \<Longrightarrow> sublist x (join sep xs)"
proof (induction sep xs rule: join.induct)
  case (1 sep)
  then show ?case by simp
next
  case (2 sep y)
  then show ?case by simp
next
  case (3 sep y z zs)
  show ?case
  proof (cases "x = y")
    case True
    then show ?thesis by simp
  next
    case False
    with 3 have "sublist x (join sep (z # zs))" by simp
    then have "sublist x ((y @ sep) @ join sep (z # zs))"
      by (rule sublist_in_right)
    then show ?thesis by simp
  qed
qed

lemma show_thresholds:
  "show_int REJECT_TOTAL = ''65''" "show_int REJECT_CATEGORY = ''10''"
  by code_simp+

lemma checkCriticalDeductions_iff:
  "checkCriticalDeductions cs \<longleftrightarrow> critical_comment cs"
  by (simp add: checkCriticalDeductions_def critical_comment_def Let_def list_ex_iff
        str_includes_sublist CRITICAL_SECURITY_PATTERNS_def) blast

lemma buildRejectReason_total:
  assumes "t < REJECT_TOTAL"
  shows "sublist (''Total score '' @ show_int t @ '' is below minimum threshold (65)'')
           (buildRejectReason t failed cats)"
proof -
  let ?x = "''Total score '' @ show_int t @ '' is below minimum threshold (65)''"
  let ?rs = "[?x] @ (if length failed > 0
                 then [''Critical deficiencies in: ''
                       @ join '', '' (map (\<lambda>cat. cat @ '': '' @ lookup_score cats cat) failed)
                       @ '' (minimum: '' @ show_int REJECT_CATEGORY @ '')'']
                 else [])"
  have e: "buildRejectReason t failed cats
             = join ''. '' ?rs @ ''. Code requires significant improvements before review.''"
    using assms by (simp add: buildRejectReason_def Let_def show_thresholds)
  have "sublist ?x (join ''. '' ?rs)" by (rule sublist_join) simp
  then show ?thesis unfolding e by (rule sublist_in_left)
qed

lemma buildRejectReason_category:
  assumes "cat \<in> set failed"
  shows "sublist (cat @ '': '' @ lookup_score cats cat) (buildRejectReason t failed cats)"
proof -
  let ?d = "join '', '' (map (\<lambda>cat. cat @ '': '' @ lookup_score cats cat) failed)"
  let ?y = "''Critical deficiencies in: '' @ ?d @ '' (minimum: '' @ show_int REJECT_CATEGORY @ '')''"
  let ?rs = "(if t < REJECT_TOTAL
              then [''Total score '' @ show_int t @ '' is below minimum threshold (''
                    @ show_int REJECT_TOTAL @ '')'']
              else []) @ [?y]"
  from assms have ne: "length failed > 0" by (cases failed) auto
  have e: "buildRejectReason t failed cats
             = join ''. '' ?rs @ ''. Code requires significant improvements before review.''"
    using ne by (simp add: buildRejectReason_def Let_def)
  have "sublist (cat @ '': '' @ lookup_score cats cat) ?d"
    by (rule sublist_join) (use assms in auto)
  then have "sublist (cat @ '': '' @ lookup_score cats cat) (?d @ '' (minimum: '' @ show_int REJECT_CATEGORY @ '')'')"
    by (rule sublist_in_left)
  then have 1: "sublist (cat @ '': '' @ lookup_score cats cat) ?y"
    by (rule sublist_in_right)
  have 2: "sublist ?y (join ''. '' ?rs)" by (rule sublist_join) simp
  have 3: "sublist (join ''. '' ?rs) (buildRejectReason t failed cats)"
    unfolding e by simp
  from 1 2 3 show ?thesis
    by (meson sublist_order.order.trans)
qed

lemma buildReadyReason_lowest:
  assumes "cats \<noteq> []"
  shows "\<exists>lowest. lowest \<in> set cats \<and> (\<forall>e \<in> set cats. snd lowest \<le> snd e)
           \<and> (snd lowest < 20 \<longrightarrow>
                sublist (''pay attention to '' @ fst lowest @ '' ('' @ show_int (snd lowest) @ ''/25)'')
                  (buildReadyReason t cats))
           \<and> (20 \<le> snd lowest \<longrightarrow>
                buildReadyReason t cats
                  = ''Code quality score '' @ show_int t @ ''/100 meets standards for human review.'')"
proof -
  from assms have "sort_key snd cats \<noteq> []"
    by (metis length_0_conv length_sort)
  then obtain l rest where s: "sort_key snd cats = l # rest" by (cases "sort_key snd cats") auto
  have mem: "set (l # rest) = set cats" using s by (metis set_sort)
  have "sorted (map snd (sort_key snd cats))" by (rule sorted_sort_key)
  then have le: "\<forall>e \<in> set cats. snd l \<le> snd e"
    unfolding s using mem by auto
  have c1: "snd l < 20 \<longrightarrow>
          sublist (''pay attention to '' @ fst l @ '' ('' @ show_int (snd l) @ ''/25)'')
            (buildReadyReason t cats)"
  proof
    assume lt: "snd l < 20"
    let ?m = "''Code quality score '' @ show_int t @ ''/100 meets standards for human review.''"
    have e: "buildReadyReason t cats =
          (?m @ '' Reviewer should '') @ (''pay attention to '' @ fst l @ '' ('' @ show_int (snd l) @ ''/25)'') @ ''.''"
      using lt by (simp add: buildReadyReason_def Let_def s)
    show "sublist (''pay attention to '' @ fst l @ '' ('' @ show_int (snd l) @ ''/25)'')
            (buildReadyReason t cats)"
      unfolding e by (rule sublist_appendI)
  qed
  have c2: "20 \<le> snd l \<longrightarrow>
          buildReadyReason t cats
            = ''Code quality score '' @ show_int t @ ''/100 meets standards for human review.''"
    by (simp add: buildReadyReason_def Let_def s)
  from mem le c1 c2 show ?thesis by (intro exI [of _ l]) auto
qed

lemma determineDecision_reject:
  assumes "rejects sc"
  shows "decision_result.decision (determineDecision sc) = NOT_READY_FOR_REVIEW"
    and "decision_result.decisionReason (determineDecision sc)
           = buildRejectReason (scores.totalScore sc)
               (map fst (filter (\<lambda>e. snd e < REJECT_CATEGORY) (category_entries sc)))
               (category_entries sc)"
  using assms
  by (auto simp: determineDecision_def Let_def rejects_def category_entries_def
        REJECT_TOTAL_def REJECT_CATEGORY_def)

lemma determineDecision_pass:
  assumes "\<not> rejects sc"
  shows "decision_result.decision (determineDecision sc) =
           (if scores.totalScore sc \<le> 80 then NEEDS_REFACTOR
            else if critical_comment (comments (security sc)) then NEEDS_REFACTOR
            else READY_FOR_HUMAN_REVIEW)"
    and "80 < scores.totalScore sc \<Longrightarrow> \<not> critical_comment (comments (security sc)) \<Longrightarrow>
           decision_result.decisionReason (determineDecision sc)
             = buildReadyReason (scores.totalScore sc) (category_entries sc)"
  using assms
  by (auto simp: determineDecision_def Let_def rejects_def category_entries_def
        REJECT_TOTAL_def REJECT_CATEGORY_def REFACTOR_MAX_def checkCriticalDeductions_iff)

lemma reject_reason_categories:
  "category_score.score (readability sc) < 10 \<Longrightarrow>
     sublist (''readability: '' @ show_int (category_score.score (readability sc)))
       (buildRejectReason t (map fst (filter (\<lambda>e. snd e < REJECT_CATEGORY) (category_entries sc)))
          (category_entries sc))"
  "category_score.score (complexity sc) < 10 \<Longrightarrow>
     sublist (''complexity: '' @ show_int (category_score.score (complexity sc)))
       (buildRejectReason t (map fst (filter (\<lambda>e. snd e < REJECT_CATEGORY) (category_entries sc)))
          (category_entries sc))"
  "category_score.score (edgeCases sc) < 10 \<Longrightarrow>
     sublist (''edgeCases: '' @ show_int (category_score.score (edgeCases sc)))
       (buildRejectReason t (map fst (filter (\<lambda>e. snd e < REJECT_CATEGORY) (category_entries sc)))
          (category_entries sc))"
  "category_score.score (security sc) < 10 \<Longrightarrow>
     sublist (''security: '' @ show_int (category_score.score (security sc)))
       (buildRejectReason t (map fst (filter (\<lambda>e. snd e < REJECT_CATEGORY) (category_entries sc)))
          (category_entries sc))"
proof -
  let ?failed = "map fst (filter (\<lambda>e. snd e < REJECT_CATEGORY) (category_entries sc))"
  let ?cats = "category_entries sc"
  have l: "lookup_score ?cats ''readability'' = show_int (category_score.score (readability sc))"
          "lookup_score ?cats ''complexity'' = show_int (category_score.score (complexity sc))"
          "lookup_score ?cats ''edgeCases'' = show_int (category_score.score (edgeCases sc))"
          "lookup_score ?cats ''security'' = show_int (category_score.score (security sc))"
    by (simp_all add: lookup_score_def category_entries_def)
  {
    assume "category_score.score (readability sc) < 10"
    then have "''readability'' \<in> set ?failed"
      by (simp add: category_entries_def REJECT_CATEGORY_def)
    from buildRejectReason_category [OF this, of ?cats t]
    show "sublist (''readability: '' @ show_int (category_score.score (readability sc)))
            (buildRejectReason t ?failed ?cats)"
      by (simp add: l)
  }
  {
    assume "category_score.score (complexity sc) < 10"
    then have "''complexity'' \<in> set ?failed"
      by (simp add: category_entries_def REJECT_CATEGORY_def)
    from buildRejectReason_category [OF this, of ?cats t]
    show "sublist (''complexity: '' @ show_int (category_score.score (complexity sc)))
            (buildRejectReason t ?failed ?cats)"
      by (simp add: l)
  }
  {
    assume "category_score.score (edgeCases sc) < 10"
    then have "''edgeCases'' \<in> set ?failed"
      by (simp add: category_entries_def REJECT_CATEGORY_def)
    from buildRejectReason_category [OF this, of ?cats t]
    show "sublist (''edgeCases: '' @ show_int (category_score.score (edgeCases sc)))
            (buildRejectReason t ?failed ?cats)"
      by (simp add: l)
  }
  {
    assume "category_score.score (security sc) < 10"
    then have "''security'' \<in> set ?failed"
      by (simp add: category_entries_def REJECT_CATEGORY_def)
    from buildRejectReason_category [OF this, of ?cats t]
    show "sublist (''security: '' @ show_int (category_score.score (security sc)))
            (buildRejectReason t ?failed ?cats)"
      by (simp add: l)
  }
qed

text \<open>
  Claim C3. \<open>determineDecision\<close> takes the first rule that applies. (1) A total score
  below 65 or a category score below 10 gives \<open>NOT_READY_FOR_REVIEW\<close>, and the reason
  names every failing condition: the total score when it is below 65, and each failing
  category with its score. (2) Otherwise a total score of at most 80 gives
  \<open>NEEDS_REFACTOR\<close>. (3) Otherwise a security comment that contains, in any letter
  case, one of \<open>eval\<close>, \<open>Function()\<close>, \<open>child_process\<close>, \<open>hardcoded secret\<close> gives
  \<open>NEEDS_REFACTOR\<close>, and without one the decision is \<open>READY_FOR_HUMAN_REVIEW\<close> with a
  reason that names a weakest category when it scores below 20. So a total score of
  at least 65 with every category at least 10 never gives \<open>NOT_READY_FOR_REVIEW\<close>.
\<close>

theorem decision_first_match:
  "(rejects sc \<longrightarrow>
      decision_result.decision (determineDecision sc) = NOT_READY_FOR_REVIEW
      \<and> (scores.totalScore sc < 65 \<longrightarrow>
           sublist (''Total score '' @ show_int (scores.totalScore sc) @ '' is below minimum threshold (65)'')
             (decision_result.decisionReason (determineDecision sc)))
      \<and> (category_score.score (readability sc) < 10 \<longrightarrow>
           sublist (''readability: '' @ show_int (category_score.score (readability sc)))
             (decision_result.decisionReason (determineDecision sc)))
      \<and> (category_score.score (complexity sc) < 10 \<longrightarrow>
           sublist (''complexity: '' @ show_int (category_score.score (complexity sc)))
             (decision_result.decisionReason (determineDecision sc)))
      \<and> (category_score.score (edgeCases sc) < 10 \<longrightarrow>
           sublist (''edgeCases: '' @ show_int (category_score.score (edgeCases sc)))
             (decision_result.decisionReason (determineDecision sc)))
      \<and> (category_score.score (security sc) < 10 \<longrightarrow>
           sublist (''security: '' @ show_int (category_score.score (security sc)))
             (decision_result.decisionReason (determineDecision sc))))
   \<and> (\<not> rejects sc \<and> scores.totalScore sc \<le> 80 \<longrightarrow>
        decision_result.decision (determineDecision sc) = NEEDS_REFACTOR)
   \<and> (\<not> rejects sc \<and> 80 < scores.totalScore sc \<and> critical_comment (comments (security sc)) \<longrightarrow>
        decision_result.decision (determineDecision sc) = NEEDS_REFACTOR)
   \<and> (\<not> rejects sc \<and> 80 < scores.totalScore sc \<and> \<not> critical_comment (comments (security sc)) \<longrightarrow>
        decision_result.decision (determineDecision sc) = READY_FOR_HUMAN_REVIEW
        \<and> (\<exists>weakest. weakest \<in> set (category_entries sc)
              \<and> (\<forall>e \<in> set (category_entries sc). snd weakest \<le> snd e)
              \<and> (snd weakest < 20 \<longrightarrow>
                   sublist (''pay attention to '' @ fst weakest @ '' ('' @ show_int (snd weakest) @ ''/25)'')
                     (decision_result.decisionReason (determineDecision sc)))))
   \<and> (65 \<le> scores.totalScore sc
       \<and> 10 \<le> category_score.score (readability sc) \<and> 10 \<le> category_score.score (complexity sc)
       \<and> 10 \<le> category_score.score (edgeCases sc) \<and> 10 \<le> category_score.score (security sc) \<longrightarrow>
        decision_result.decision (determineDecision sc) \<noteq> NOT_READY_FOR_REVIEW)"
proof -
  have rule1: "rejects sc \<longrightarrow>
      decision_result.decision (determineDecision sc) = NOT_READY_FOR_REVIEW
      \<and> (scores.totalScore sc < 65 \<longrightarrow>
           sublist (''Total score '' @ show_int (scores.totalScore sc) @ '' is below minimum threshold (65)'')
             (decision_result.decisionReason (determineDecision sc)))
      \<and> (category_score.score (readability sc) < 10 \<longrightarrow>
           sublist (''readability: '' @ show_int (category_score.score (readability sc)))
             (decision_result.decisionReason (determineDecision sc)))
      \<and> (category_score.score (complexity sc) < 10 \<longrightarrow>
           sublist (''complexity: '' @ show_int (category_score.score (complexity sc)))
             (decision_result.decisionReason (determineDecision sc)))
      \<and> (category_score.score (edgeCases sc) < 10 \<longrightarrow>
           sublist (''edgeCases: '' @ show_int (category_score.score (edgeCases sc)))
             (decision_result.decisionReason (determineDecision sc)))
      \<and> (category_score.score (security sc) < 10 \<longrightarrow>
           sublist (''security: '' @ show_int (category_score.score (security sc)))
             (decision_result.decisionReason (determineDecision sc)))"
  proof
    assume r: "rejects sc"
    have t: "scores.totalScore sc < 65 \<longrightarrow>
           sublist (''Total score '' @ show_int (scores.totalScore sc) @ '' is below minimum threshold (65)'')
             (decision_result.decisionReason (determineDecision sc))"
      using buildRejectReason_total [of "scores.totalScore sc"]
      by (simp add: determineDecision_reject(2) [OF r] REJECT_TOTAL_def)
    from t determineDecision_reject(1) [OF r] reject_reason_categories [of sc "scores.totalScore sc"]
    show "decision_result.decision (determineDecision sc) = NOT_READY_FOR_REVIEW
      \<and> (scores.totalScore sc < 65 \<longrightarrow>
           sublist (''Total score '' @ show_int (scores.totalScore sc) @ '' is below minimum threshold (65)'')
             (decision_result.decisionReason (determineDecision sc)))
      \<and> (category_score.score (readability sc) < 10 \<longrightarrow>
           sublist (''readability: '' @ show_int (category_score.score (readability sc)))
             (decision_result.decisionReason (determineDecision sc)))
      \<and> (category_score.score (complexity sc) < 10 \<longrightarrow>
           sublist (''complexity: '' @ show_int (category_score.score (complexity sc)))
             (decision_result.decisionReason (determineDecision sc)))
      \<and> (category_score.score (edgeCases sc) < 10 \<longrightarrow>
           sublist (''edgeCases: '' @ show_int (category_score.score (edgeCases sc)))
             (decision_result.decisionReason (determineDecision sc)))
      \<and> (category_score.score (security sc) < 10 \<longrightarrow>
           sublist (''security: '' @ show_int (category_score.score (security sc)))
             (decision_result.decisionReason (determineDecision sc)))"
      by (simp add: determineDecision_reject(2) [OF r])
  qed
  have rule2: "\<not> rejects sc \<and> scores.totalScore sc \<le> 80 \<longrightarrow>
        decision_result.decision (determineDecision sc) = NEEDS_REFACTOR"
    using determineDecision_pass(1) [of sc] by simp
  have rule3a: "\<not> rejects sc \<and> 80 < scores.totalScore sc \<and> critical_comment (comments (security sc)) \<longrightarrow>
        decision_result.decision (determineDecision sc) = NEEDS_REFACTOR"
    using determineDecision_pass(1) [of sc] by simp
  have rule3b: "\<not> rejects sc \<and> 80 < scores.totalScore sc \<and> \<not> critical_comment (comments (security sc)) \<longrightarrow>
        decision_result.decision (determineDecision sc) = READY_FOR_HUMAN_REVIEW
        \<and> (\<exists>weakest. weakest \<in> set (category_entries sc)
              \<and> (\<forall>e \<in> set (category_entries sc). snd weakest \<le> snd e)
              \<and> (snd weakest < 20 \<longrightarrow>
                   sublist (''pay attention to '' @ fst weakest @ '' ('' @ show_int (snd weakest) @ ''/25)'')
                     (decision_result.decisionReason (determineDecision sc))))"
  proof
    assume a: "\<not> rejects sc \<and> 80 < scores.totalScore sc \<and> \<not> critical_comment (comments (security sc))"
    then have d: "decision_result.decision (determineDecision sc) = READY_FOR_HUMAN_REVIEW"
      using determineDecision_pass(1) [of sc] by simp
    have e: "decision_result.decisionReason (determineDecision sc)
               = buildReadyReason (scores.totalScore sc) (category_entries sc)"
      using a determineDecision_pass(2) [of sc] by simp
    have "category_entries sc \<noteq> []" by (simp add: category_entries_def)
    from buildReadyReason_lowest [OF this, of "scores.totalScore sc"] d
    show "decision_result.decision (determineDecision sc) = READY_FOR_HUMAN_REVIEW
        \<and> (\<exists>weakest. weakest \<in> set (category_entries sc)
              \<and> (\<forall>e \<in> set (category_entries sc). snd weakest \<le> snd e)
              \<and> (snd weakest < 20 \<longrightarrow>
                   sublist (''pay attention to '' @ fst weakest @ '' ('' @ show_int (snd weakest) @ ''/25)'')
                     (decision_result.decisionReason (determineDecision sc))))"
      unfolding e by blast
  qed
  have never: "65 \<le> scores.totalScore sc
       \<and> 10 \<le> category_score.score (readability sc) \<and> 10 \<le> category_score.score (complexity sc)
       \<and> 10 \<le> category_score.score (edgeCases sc) \<and> 10 \<le> category_score.score (security sc) \<longrightarrow>
        decision_result.decision (determineDecision sc) \<noteq> NOT_READY_FOR_REVIEW"
  proof
    assume "65 \<le> scores.totalScore sc
       \<and> 10 \<le> category_score.score (readability sc) \<and> 10 \<le> category_score.score (complexity sc)
       \<and> 10 \<le> category_score.score (edgeCases sc) \<and> 10 \<le> category_score.score (security sc)"
    then have "\<not> rejects sc" by (simp add: rejects_def)
    from determineDecision_pass(1) [OF this]
    show "decision_result.decision (determineDecision sc) \<noteq> NOT_READY_FOR_REVIEW" by simp
  qed
  from rule1 rule2 rule3a rule3b never show ?thesis by blast
qed

theorem decision_first_match_witness:
  "rejects (mk_scores 25 5 25 25 [] 80)
   \<and> decision_result.decision (determineDecision (mk_scores 25 5 25 25 [] 80)) = NOT_READY_FOR_REVIEW
   \<and> sublist (''complexity: '' @ show_int 5)
        (decision_result.decisionReason (determineDecision (mk_scores 25 5 25 25 [] 80)))
   \<and> \<not> rejects (mk_scores 25 25 25 17 [''CRITICAL: Eval() usage detected at line 3.''] 92)
   \<and> critical_comment [''CRITICAL: Eval() usage detected at line 3.'']
   \<and> decision_result.decision
        (determineDecision (mk_scores 25 25 25 17 [''CRITICAL: Eval() usage detected at line 3.''] 92))
       = NEEDS_REFACTOR
   \<and> \<not> rejects (mk_scores 25 25 25 15 [] 90)
   \<and> \<not> critical_comment []
   \<and> decision_result.decision (determineDecision (mk_scores 25 25 25 15 [] 90)) = READY_FOR_HUMAN_REVIEW"
proof -
  have r1: "rejects (mk_scores 25 5 25 25 [] 80)"
    and c1: "category_score.score (complexity (mk_scores 25 5 25 25 [] 80)) = 5"
    by (simp_all add: rejects_def mk_scores_def)
  have r2: "\<not> rejects (mk_scores 25 25 25 17 [''CRITICAL: Eval() usage detected at line 3.''] 92)"
    and t2: "scores.totalScore (mk_scores 25 25 25 17 [''CRITICAL: Eval() usage detected at line 3.''] 92) = 92"
    and s2: "comments (security (mk_scores 25 25 25 17 [''CRITICAL: Eval() usage detected at line 3.''] 92))
               = [''CRITICAL: Eval() usage detected at line 3.'']"
    by (simp_all add: rejects_def mk_scores_def)
  have "checkCriticalDeductions [''CRITICAL: Eval() usage detected at line 3.'']" by code_simp
  then have k2: "critical_comment [''CRITICAL: Eval() usage detected at line 3.'']"
    by (simp only: checkCriticalDeductions_iff)
  have r3: "\<not> rejects (mk_scores 25 25 25 15 [] 90)"
    and t3: "scores.totalScore (mk_scores 25 25 25 15 [] 90) = 90"
    and s3: "comments (security (mk_scores 25 25 25 15 [] 90)) = []"
    by (simp_all add: rejects_def mk_scores_def)
  have k3: "\<not> critical_comment []" by (simp add: critical_comment_def)
  from decision_first_match [of "mk_scores 25 5 25 25 [] 80"] r1 c1
  have w1: "decision_result.decision (determineDecision (mk_scores 25 5 25 25 [] 80)) = NOT_READY_FOR_REVIEW
     \<and> sublist (''complexity: '' @ show_int 5)
        (decision_result.decisionReason (determineDecision (mk_scores 25 5 25 25 [] 80)))"
    by simp
  from decision_first_match [of "mk_scores 25 25 25 17 [''CRITICAL: Eval() usage detected at line 3.''] 92"]
       r2 t2 s2 k2
  have w2: "decision_result.decision
        (determineDecision (mk_scores 25 25 25 17 [''CRITICAL: Eval() usage detected at line 3.''] 92))
       = NEEDS_REFACTOR"
    by simp
  from decision_first_match [of "mk_scores 25 25 25 15 [] 90"] r3 t3 s3 k3
  have w3: "decision_result.decision (determineDecision (mk_scores 25 25 25 15 [] 90)) = READY_FOR_HUMAN_REVIEW"
    by simp
  from r1 w1 r2 k2 w2 r3 k3 w3 show ?thesis by blast
qed

subsection \<open>Batch averages\<close>









end
